theory Spec2Isabelle
  imports Main
begin

section \<open>JavaScript values\<close>

text \<open>
  Plain data: what a callback can throw, what a promise can reject with, and what a user
  configuration holds. An \<open>Error\<close> object is kept as its \<open>message\<close> and its optional
  \<open>stack\<close>; equality of two \<open>ErrorObj\<close> values stands for the identity of the object.
\<close>

datatype jsdata =
    Undefined
  | Null
  | Bool bool
  | Num int
  | Str string
  | ErrorObj string "string option"
  | Arr "jsdata list"
  | Obj "(string \<times> jsdata) list"

text \<open>JavaScript's \<open>ToBoolean\<close>: every object is truthy, also an empty one.\<close>

fun truthy :: "jsdata \<Rightarrow> bool" where
  "truthy Undefined = False"
| "truthy Null = False"
| "truthy (Bool b) = b"
| "truthy (Num n) = (n \<noteq> 0)"
| "truthy (Str s) = (s \<noteq> [])"
| "truthy (ErrorObj m s) = True"
| "truthy (Arr xs) = True"
| "truthy (Obj ps) = True"

fun nullish :: "jsdata \<Rightarrow> bool" where
  "nullish Undefined = True"
| "nullish Null = True"
| "nullish v = False"

text \<open>
  Reading a property \<open>v.k\<close> of a value that is not \<open>null\<close> or \<open>undefined\<close>. A missing
  property reads as \<open>undefined\<close>. The source reads a property of plain data only behind a
  truthiness test, so the two nullish receivers (where JavaScript throws) are never reached;
  they read as \<open>undefined\<close> here.
\<close>

fun getProp :: "jsdata \<Rightarrow> string \<Rightarrow> jsdata" where
  "getProp (ErrorObj m s) k =
     (if k = ''message'' then Str m
      else if k = ''stack'' then (case s of None \<Rightarrow> Undefined | Some t \<Rightarrow> Str t)
      else Undefined)"
| "getProp (Obj ps) k = (case map_of ps k of None \<Rightarrow> Undefined | Some v \<Rightarrow> v)"
| "getProp v k = Undefined"

text \<open>How a call ends: it returns a value or it throws one.\<close>

datatype 'a completion = Return 'a | Throw jsdata

section \<open>The build session and its telemetry sink\<close>

text \<open>
  \<open>DevToolError\<close> as \<open>reportPluginData\<close> constructs it: the title, the message, and the
  options \<open>controller: { noStack, noColor }\<close> and \<open>stack\<close>.
\<close>

record DevToolError =
  title :: string
  message :: jsdata
  noStack :: bool
  noColor :: bool
  stack :: jsdata

text \<open>One entry of \<open>SDK.PluginHookData\<close>: the OutcomeRecord of the specification.\<close>

record PluginHookData =
  tapName :: string
  costs :: int
  startAt :: int
  endAt :: int
  type :: string
  result :: jsdata
  error :: "DevToolError list"

text \<open>
  The world a callback runs in: the wall clock that \<open>Date.now()\<close> reads, the plugin data
  accumulated by the session's sink (hook name to the sequence of its records), and the rest
  of the host's state, which the instrumentation never looks at. Time passes while callbacks
  and the event loop run; the steps of the instrumentation itself take none.
\<close>

record 'h world =
  clock :: int
  pluginData :: "string \<rightharpoonup> PluginHookData list"
  host :: 'h

definition Date_now :: "('h, 'x) world_scheme \<Rightarrow> int" where
  "Date_now w = clock w"

text \<open>
  Modelled from the spec: the sink's \<open>submit\<close> operation (\<open>RsdoctorSDK.reportPlugin\<close>, whose
  code is not under src/). It merges the records into the accumulated state keyed by hook
  name, appending to the records the hook already has.
\<close>

fun submit :: "(string \<times> PluginHookData list) list \<Rightarrow> (string \<rightharpoonup> PluginHookData list)
    \<Rightarrow> (string \<rightharpoonup> PluginHookData list)" where
  "submit [] m = m"
| "submit ((hook, recs) # rest) m =
     submit rest (m(hook \<mapsto> (case m hook of None \<Rightarrow> recs | Some old \<Rightarrow> old @ recs)))"

text \<open>
  The session object. Its \<open>reportPlugin\<close> either throws (the value \<open>fails\<close> gives for this
  submission in this world) and leaves the sink as it was, or merges the submission.
\<close>

record 'h RsdoctorSDK =
  fails :: "(string \<times> PluginHookData list) list \<Rightarrow> 'h world \<Rightarrow> jsdata option"

definition reportPlugin :: "'h RsdoctorSDK \<Rightarrow> (string \<times> PluginHookData list) list \<Rightarrow> 'h world
    \<Rightarrow> unit completion \<times> 'h world" where
  "reportPlugin sdk data w =
     (case fails sdk data w of
        Some e \<Rightarrow> (Throw e, w)
      | None \<Rightarrow> (Return (), w\<lparr>pluginData := submit data (pluginData w)\<rparr>))"

text \<open>The records the sink holds for one hook.\<close>

definition records :: "'h world \<Rightarrow> string \<Rightarrow> PluginHookData list" where
  "records w hook = (case pluginData w hook of None \<Rightarrow> [] | Some rs \<Rightarrow> rs)"

section \<open>The outcome reporter\<close>

text \<open>
  \<open>reportPluginData(sdk, hook, tapName, start, type, _res, err?)\<close>. The argument \<open>_res\<close>
  (here \<open>res\<close>) is never read; \<open>err\<close> is \<open>undefined\<close> when the caller leaves it out.
\<close>

definition mkRecord :: "string \<Rightarrow> string \<Rightarrow> int \<Rightarrow> int \<Rightarrow> string \<Rightarrow> jsdata \<Rightarrow> PluginHookData" where
  "mkRecord hook tapName' start end type' err =
     \<lparr> tapName = tapName',
       costs = end - start,
       startAt = start,
       endAt = end,
       type = type',
       result = Null,
       error = (if truthy err
                then [\<lparr> title = tapName' @ '' '' @ hook @ '' Error'',
                        message = getProp err ''message'',
                        noStack = False,
                        noColor = True,
                        stack = getProp err ''stack'' \<rparr>]
                else []) \<rparr>"

definition reportPluginData :: "'h RsdoctorSDK \<Rightarrow> string \<Rightarrow> string \<Rightarrow> int \<Rightarrow> string \<Rightarrow> 'r \<Rightarrow> jsdata
    \<Rightarrow> 'h world \<Rightarrow> unit completion \<times> 'h world" where
  "reportPluginData sdk hook tapName' start type' res err w =
     (let end = Date_now w
      in reportPlugin sdk [(hook, [mkRecord hook tapName' start end type' err])] w)"

section \<open>Values that callbacks receive and return\<close>

text \<open>How a promise settles.\<close>

datatype 'a settlement = Fulfilled 'a | Rejected jsdata

text \<open>
  A value a tap is called with or returns: plain data, an object with members, a function, or
  a promise.

  A \<open>Function\<close> is what calling it with no arguments on its own receiver does (the only call
  the source makes on a member of an argument is \<open>compiler.isChild()\<close>).

  A \<open>Promise\<close> is the computation still to run: from the world in which the event loop resumes
  it gives the settlement and the world at that moment, or \<open>None\<close> when the promise never
  settles. JavaScript never fulfils a promise with a promise, so a continuation that returns
  the fulfilment value it received fulfils with that value. Promise-like objects other than
  promises are not modelled.
\<close>

datatype 'h jsval =
    Data jsdata
  | Object "(string \<times> 'h jsval) list"
  | Function "'h world \<Rightarrow> 'h jsval completion \<times> 'h world"
  | Promise "'h world \<Rightarrow> ('h jsval settlement \<times> 'h world) option"

type_synonym 'h promise = "'h world \<Rightarrow> ('h jsval settlement \<times> 'h world) option"

fun truthyV :: "'h jsval \<Rightarrow> bool" where
  "truthyV (Data d) = truthy d"
| "truthyV v = True"

fun nullishV :: "'h jsval \<Rightarrow> bool" where
  "nullishV (Data d) = nullish d"
| "nullishV v = False"

fun getPropV :: "'h jsval \<Rightarrow> string \<Rightarrow> 'h jsval" where
  "getPropV (Data d) k = Data (getProp d k)"
| "getPropV (Object ps) k = (case map_of ps k of None \<Rightarrow> Data Undefined | Some v \<Rightarrow> v)"
| "getPropV v k = Data Undefined"

text \<open>The \<open>TypeError\<close> the engine throws when a call or a property read is impossible.\<close>

definition TypeError :: jsdata where
  "TypeError = ErrorObj ''TypeError'' None"

text \<open>\<open>p.then(f)\<close> with one handler, and \<open>p.catch(g)\<close>.\<close>

definition promise_then :: "'h promise \<Rightarrow> ('h jsval \<Rightarrow> 'h world \<Rightarrow> 'h jsval completion \<times> 'h world)
    \<Rightarrow> 'h promise" where
  "promise_then p f w =
     (case p w of
        None \<Rightarrow> None
      | Some (Fulfilled v, w1) \<Rightarrow>
          (case f v w1 of
             (Return r, w2) \<Rightarrow> Some (Fulfilled r, w2)
           | (Throw e, w2) \<Rightarrow> Some (Rejected e, w2))
      | Some (Rejected e, w1) \<Rightarrow> Some (Rejected e, w1))"

definition promise_catch :: "'h promise \<Rightarrow> (jsdata \<Rightarrow> 'h world \<Rightarrow> 'h jsval completion \<times> 'h world)
    \<Rightarrow> 'h promise" where
  "promise_catch p g w =
     (case p w of
        None \<Rightarrow> None
      | Some (Fulfilled v, w1) \<Rightarrow> Some (Fulfilled v, w1)
      | Some (Rejected e, w1) \<Rightarrow>
          (case g e w1 of
             (Return r, w2) \<Rightarrow> Some (Fulfilled r, w2)
           | (Throw e', w2) \<Rightarrow> Some (Rejected e', w2)))"

text \<open>\<open>await x\<close>: a promise is waited for, any other value is the result as it is.\<close>

definition await :: "'h jsval \<Rightarrow> 'h promise" where
  "await x w = (case x of Promise p \<Rightarrow> p w | _ \<Rightarrow> Some (Fulfilled x, w))"

section \<open>Taps and the hook interceptor\<close>

text \<open>A callback is called with its \<open>this\<close> and its \<open>arguments\<close>.\<close>

type_synonym 'h callback =
  "'h jsval \<Rightarrow> 'h jsval list \<Rightarrow> 'h world \<Rightarrow> 'h jsval completion \<times> 'h world"

text \<open>
  A tap: \<open>{ name, type, fn }\<close>. Whatever else the host keeps on the tap (stage, before, ...) is
  the extension of the record.
\<close>

record 'h tap =
  name :: string
  type :: string
  fn :: "'h callback"

text \<open>
  The \<open>catch\<close> block shared by the synchronous and the awaited proxy: report the error, then
  throw it again. When the report itself throws, that error leaves the block instead.
\<close>

definition catchBlock :: "'h RsdoctorSDK \<Rightarrow> string \<Rightarrow> string \<Rightarrow> int \<Rightarrow> string \<Rightarrow> jsdata
    \<Rightarrow> 'h world \<Rightarrow> jsdata \<times> 'h world" where
  "catchBlock sdk name' tapName' start type' error' w =
     (case reportPluginData sdk name' tapName' start type' (Data Null :: 'h jsval) error' w of
        (Return u, w') \<Rightarrow> (error', w')
      | (Throw e, w') \<Rightarrow> (e, w'))"

text \<open>
  The \<open>try\<close> block after the original callback has given \<open>res\<close>: report, then return \<open>res\<close>.
  An error thrown by the report is caught by the same \<open>try\<close> statement.
\<close>

definition tryReport :: "'h RsdoctorSDK \<Rightarrow> string \<Rightarrow> string \<Rightarrow> int \<Rightarrow> string \<Rightarrow> 'h jsval
    \<Rightarrow> 'h world \<Rightarrow> 'h jsval completion \<times> 'h world" where
  "tryReport sdk name' tapName' start type' res w =
     (case reportPluginData sdk name' tapName' start type' res Undefined w of
        (Return u, w') \<Rightarrow> (Return res, w')
      | (Throw error', w') \<Rightarrow>
          (case catchBlock sdk name' tapName' start type' error' w' of
             (e, w'') \<Rightarrow> (Throw e, w'')))"

text \<open>The proxy of a \<open>sync\<close> tap (plugin.ts, lines 53 to 71).\<close>

definition syncProxy :: "'h RsdoctorSDK \<Rightarrow> string \<Rightarrow> string \<Rightarrow> string \<Rightarrow> 'h callback \<Rightarrow> 'h callback" where
  "syncProxy sdk name' tapName' type' o' this arguments w =
     (let start = Date_now w
      in case o' this arguments w of
           (Return res, w1) \<Rightarrow> tryReport sdk name' tapName' start type' res w1
         | (Throw error', w1) \<Rightarrow>
             (case catchBlock sdk name' tapName' start type' error' w1 of
                (e, w2) \<Rightarrow> (Throw e, w2)))"

text \<open>
  The proxy of an \<open>async\<close> tap (lines 73 to 91), an \<open>async function\<close>: it runs up to its
  \<open>await\<close> at once and returns a promise. When the original callback throws, the \<open>catch\<close>
  block runs at once and the promise returned is already rejected. Otherwise the rest of the
  body runs when the awaited value is there.
\<close>

definition asyncProxy :: "'h RsdoctorSDK \<Rightarrow> string \<Rightarrow> string \<Rightarrow> string \<Rightarrow> 'h callback \<Rightarrow> 'h callback" where
  "asyncProxy sdk name' tapName' type' o' this arguments w =
     (let start = Date_now w
      in case o' this arguments w of
           (Throw error', w1) \<Rightarrow>
             (case catchBlock sdk name' tapName' start type' error' w1 of
                (e, w2) \<Rightarrow> (Return (Promise (\<lambda>w'. Some (Rejected e, w'))), w2))
         | (Return x, w1) \<Rightarrow>
             (Return (Promise (\<lambda>w'.
                case await x w' of
                  None \<Rightarrow> None
                | Some (Fulfilled res, w2) \<Rightarrow>
                    (case tryReport sdk name' tapName' start type' res w2 of
                       (Return r, w3) \<Rightarrow> Some (Fulfilled r, w3)
                     | (Throw e, w3) \<Rightarrow> Some (Rejected e, w3))
                | Some (Rejected error', w2) \<Rightarrow>
                    (case catchBlock sdk name' tapName' start type' error' w2 of
                       (e, w3) \<Rightarrow> Some (Rejected e, w3)))), w1))"

text \<open>
  \<open>arguments?.[0]?.compiler?.isChild()\<close>: the chain gives \<open>undefined\<close> as soon as the first
  argument or its \<open>compiler\<close> is \<open>null\<close> or \<open>undefined\<close>; a \<open>compiler\<close> whose \<open>isChild\<close> is not
  a function makes the call throw.
\<close>

definition isChildOf :: "'h jsval list \<Rightarrow> 'h world \<Rightarrow> 'h jsval completion \<times> 'h world" where
  "isChildOf arguments w =
     (let a0 = (case arguments of [] \<Rightarrow> Data Undefined | a # rest \<Rightarrow> a)
      in if nullishV a0 then (Return (Data Undefined), w)
         else let compiler = getPropV a0 ''compiler''
              in if nullishV compiler then (Return (Data Undefined), w)
                 else (case getPropV compiler ''isChild'' of
                         Function f \<Rightarrow> f w
                       | _ \<Rightarrow> (Throw TypeError, w)))"

text \<open>
  The proxy of a \<open>promise\<close> tap (lines 93 to 119). Nothing here is inside a \<open>try\<close>: what
  \<open>isChild()\<close> or the original callback throws leaves the proxy, and so does the \<open>TypeError\<close>
  of \<open>.then\<close> on a value that is not a promise. The two handlers are chained: an error thrown
  in the \<open>then\<close> handler reaches the \<open>catch\<close> handler.
\<close>

definition promiseProxy :: "'h RsdoctorSDK \<Rightarrow> string \<Rightarrow> string \<Rightarrow> string \<Rightarrow> 'h callback \<Rightarrow> 'h callback" where
  "promiseProxy sdk name' tapName' type' o' this arguments w =
     (let start = Date_now w
      in case isChildOf arguments w of
           (Throw e, w1) \<Rightarrow> (Throw e, w1)
         | (Return isChild, w1) \<Rightarrow>
             (case o' this arguments w1 of
                (Throw e, w2) \<Rightarrow> (Throw e, w2)
              | (Return (Promise p), w2) \<Rightarrow>
                  (Return (Promise
                     (promise_catch
                        (promise_then p (\<lambda>res w'.
                           if truthyV isChild then (Return res, w')
                           else (case reportPluginData sdk name' tapName' start type' res Undefined w' of
                                   (Return u, w'') \<Rightarrow> (Return res, w'')
                                 | (Throw e, w'') \<Rightarrow> (Throw e, w''))))
                        (\<lambda>error' w'.
                           case catchBlock sdk name' tapName' start type' error' w' of
                             (e, w'') \<Rightarrow> (Throw e, w'')))), w2)
              | (Return x, w2) \<Rightarrow> (Throw TypeError, w2)))"

text \<open>
  The registration observer, \<open>register(tap)\<close> (lines 48 to 123), for the session \<open>sdk\<close> and
  the hook name (\<open>name\<close> in the source, \<open>name'\<close> here) of the enclosing call. The source
  assigns \<open>tap.fn\<close> and returns the same object. The proxies read \<open>tap.name\<close> and \<open>tap.type\<close>
  when they run; the model takes them when the tap is registered.
\<close>

definition register :: "'h RsdoctorSDK \<Rightarrow> string \<Rightarrow> ('h, 'm) tap_scheme \<Rightarrow> ('h, 'm) tap_scheme" where
  "register sdk name' tap =
     (let o' = fn tap
      in if tap.type tap = ''sync'' then tap\<lparr>fn := syncProxy sdk name' (name tap) (tap.type tap) o'\<rparr>
         else if tap.type tap = ''async'' then tap\<lparr>fn := asyncProxy sdk name' (name tap) (tap.type tap) o'\<rparr>
         else if tap.type tap = ''promise'' then tap\<lparr>fn := promiseProxy sdk name' (name tap) (tap.type tap) o'\<rparr>
         else tap)"

text \<open>
  A hook as \<open>interceptPluginHook\<close> sees it: it may have an \<open>intercept\<close> member, which takes the
  interceptor (an object whose only member is \<open>register\<close>, passed here as that function) and
  changes the hook's own state.
\<close>

record ('h, 'm, 'r) IHook =
  intercept :: "((('h, 'm) tap_scheme \<Rightarrow> ('h, 'm) tap_scheme) \<Rightarrow> 'r \<Rightarrow> 'r) option"
  registry :: 'r

text \<open>
  \<open>interceptPluginHook(sdk, name, hook)\<close>; \<open>None\<close> is a hook that is \<open>null\<close> or \<open>undefined\<close>.
  The function returns nothing: its result here is the hook after the call.
\<close>

definition interceptPluginHook :: "'h RsdoctorSDK \<Rightarrow> string \<Rightarrow> ('h, 'm, 'r) IHook option
    \<Rightarrow> ('h, 'm, 'r) IHook option" where
  "interceptPluginHook sdk name' hook =
     (case hook of
        None \<Rightarrow> None
      | Some h \<Rightarrow>
          (case intercept h of
             None \<Rightarrow> Some h
           | Some f \<Rightarrow> Some (h\<lparr>registry := f (register sdk name') (registry h)\<rparr>)))"

section \<open>The host's hook registry\<close>

text \<open>
  Modelled from the spec: the hook registry of the host build tool, which is not code of this
  repository. The hook "exposes an interception point invoked whenever a new callback is
  registered on it"; each installed observer "receives each Tap at the moment of registration
  and returns a possibly-modified Tap". The observers run in the order of their installation.
\<close>

record ('h, 'm) hostRegistry =
  interceptors :: "(('h, 'm) tap_scheme \<Rightarrow> ('h, 'm) tap_scheme) list"
  taps :: "('h, 'm) tap_scheme list"

definition hostIntercept :: "(('h, 'm) tap_scheme \<Rightarrow> ('h, 'm) tap_scheme)
    \<Rightarrow> ('h, 'm) hostRegistry \<Rightarrow> ('h, 'm) hostRegistry" where
  "hostIntercept observer r = r\<lparr>interceptors := interceptors r @ [observer]\<rparr>"

definition hostTap :: "('h, 'm) tap_scheme \<Rightarrow> ('h, 'm) hostRegistry
    \<Rightarrow> ('h, 'm) tap_scheme \<times> ('h, 'm) hostRegistry" where
  "hostTap tap r =
     (let tap' = fold (\<lambda>observer t. observer t) (interceptors r) tap
      in (tap', r\<lparr>taps := taps r @ [tap']\<rparr>))"

text \<open>
  The tap as the host keeps it once it is registered on the hook. A hook that is \<open>null\<close> has
  no registry: the tap stays as it is.
\<close>

definition registeredTap :: "('h, 'm, ('h, 'm) hostRegistry) IHook option \<Rightarrow> ('h, 'm) tap_scheme
    \<Rightarrow> ('h, 'm) tap_scheme" where
  "registeredTap hook tap =
     (case hook of None \<Rightarrow> tap | Some h \<Rightarrow> fst (hostTap tap (registry h)))"

section \<open>What the caller of a tap observes\<close>

text \<open>
  Running the promise a call returned, from the world in which the event loop resumes. A call
  that throws, or returns something else than a promise, gives no settlement.
\<close>

definition settle :: "'h jsval completion \<times> 'h world \<Rightarrow> 'h world
    \<Rightarrow> ('h jsval settlement \<times> 'h world) option" where
  "settle cw wr = (case fst cw of Return (Promise p) \<Rightarrow> p wr | _ \<Rightarrow> None)"

text \<open>
  The outcome of a call as the host observes it under each calling convention. The host of a
  \<open>sync\<close> tap sees the value returned or the error thrown. The host of an \<open>async\<close> tap awaits
  the call: it sees a settlement, and an error thrown by the call itself is a rejection. The
  host of a \<open>promise\<close> tap sees an error thrown by the call, or the settlement of the promise
  returned.
\<close>

datatype 'h outcome =
    Returned "'h jsval"
  | Threw jsdata
  | Settled "'h jsval settlement"
  | Pending

definition settlementOf :: "('h jsval settlement \<times> 'h world) option \<Rightarrow> 'h outcome" where
  "settlementOf x = (case x of None \<Rightarrow> Pending | Some (s, w) \<Rightarrow> Settled s)"

definition outcome :: "string \<Rightarrow> 'h jsval completion \<times> 'h world \<Rightarrow> 'h world \<Rightarrow> 'h outcome" where
  "outcome convention cw wr =
     (if convention = ''async'' then
        (case fst cw of
           Throw e \<Rightarrow> Settled (Rejected e)
         | Return x \<Rightarrow> settlementOf (await x wr))
      else if convention = ''promise'' then
        (case fst cw of
           Throw e \<Rightarrow> Threw e
         | Return (Promise p) \<Rightarrow> settlementOf (p wr)
         | Return v \<Rightarrow> Returned v)
      else
        (case fst cw of
           Throw e \<Rightarrow> Threw e
         | Return v \<Rightarrow> Returned v))"

text \<open>Whether a call of a \<open>promise\<close> tap threw or returned a promise, as the host requires.\<close>

definition promiseOrThrow :: "'h jsval completion \<times> 'h world \<Rightarrow> bool" where
  "promiseOrThrow cw =
     (case fst cw of Throw e \<Rightarrow> True | Return (Promise p) \<Rightarrow> True | Return v \<Rightarrow> False)"

section \<open>Concrete sessions, taps and arguments\<close>

definition sdkOk :: "unit RsdoctorSDK" where
  "sdkOk = \<lparr> fails = (\<lambda>d w. None) \<rparr>"

definition sinkError :: jsdata where
  "sinkError = ErrorObj ''sink unavailable'' None"

definition sdkBroken :: "unit RsdoctorSDK" where
  "sdkBroken = \<lparr> fails = (\<lambda>d w. Some sinkError) \<rparr>"

definition w0 :: "unit world" where
  "w0 = \<lparr> clock = 1000, pluginData = Map.empty, host = () \<rparr>"

definition boom :: jsdata where
  "boom = ErrorObj ''boom'' (Some ''Error: boom at tap.js:1'')"

text \<open>A synchronous tap that runs for 5 ms and returns 42, and one that throws instead.\<close>

definition tap42 :: "unit tap" where
  "tap42 = \<lparr> name = ''my-plugin'', type = ''sync'',
             fn = (\<lambda>this arguments w. (Return (Data (Num 42)), w\<lparr>clock := clock w + 5\<rparr>)) \<rparr>"

definition tapBoom :: "unit tap" where
  "tapBoom = \<lparr> name = ''my-plugin'', type = ''sync'',
               fn = (\<lambda>this arguments w. (Throw boom, w\<lparr>clock := clock w + 5\<rparr>)) \<rparr>"

text \<open>A tap of a convention the interceptor does not know.\<close>

definition tapOther :: "unit tap" where
  "tapOther = \<lparr> name = ''my-plugin'', type = ''callback'',
                fn = (\<lambda>this arguments w. (Return (Data (Num 42)), w)) \<rparr>"

text \<open>Promise taps whose promise settles 3 ms after the event loop resumes.\<close>

definition tapResolve :: "unit tap" where
  "tapResolve = \<lparr> name = ''summary'', type = ''promise'',
       fn = (\<lambda>this arguments w.
               (Return (Promise (\<lambda>w'. Some (Fulfilled (Data (Num 7)), w'\<lparr>clock := clock w' + 3\<rparr>))), w)) \<rparr>"

definition tapReject :: "unit tap" where
  "tapReject = \<lparr> name = ''summary'', type = ''promise'',
       fn = (\<lambda>this arguments w.
               (Return (Promise (\<lambda>w'. Some (Rejected boom, w'\<lparr>clock := clock w' + 3\<rparr>))), w)) \<rparr>"

text \<open>A promise tap whose promise is rejected without a reason, as \<open>Promise.reject()\<close> does.\<close>

definition tapRejectUndefined :: "unit tap" where
  "tapRejectUndefined = \<lparr> name = ''summary'', type = ''promise'',
       fn = (\<lambda>this arguments w.
               (Return (Promise (\<lambda>w'. Some (Rejected Undefined, w'\<lparr>clock := clock w' + 3\<rparr>))), w)) \<rparr>"

text \<open>First arguments \<open>{ compiler: { isChild: () => true } }\<close> and \<open>... => false\<close>.\<close>

definition childArg :: "unit jsval" where
  "childArg = Object [(''compiler'', Object [(''isChild'', Function (\<lambda>w. (Return (Data (Bool True)), w)))])]"

definition topArg :: "unit jsval" where
  "topArg = Object [(''compiler'', Object [(''isChild'', Function (\<lambda>w. (Return (Data (Bool False)), w)))])]"

text \<open>A hook of the host with nothing installed yet, and a hook without \<open>intercept\<close>.\<close>

definition hook0 :: "(unit, unit, (unit, unit) hostRegistry) IHook" where
  "hook0 = \<lparr> intercept = Some hostIntercept, registry = \<lparr> interceptors = [], taps = [] \<rparr> \<rparr>"

definition hookPlain :: "(unit, unit, (unit, unit) hostRegistry) IHook" where
  "hookPlain = \<lparr> intercept = None, registry = \<lparr> interceptors = [], taps = [] \<rparr> \<rparr>"

section \<open>Configuration normalization\<close>

text \<open>\<open>typeof v === 'object'\<close>; it holds of \<open>null\<close> too.\<close>

fun typeofObject :: "jsdata \<Rightarrow> bool" where
  "typeofObject Null = True"
| "typeofObject (ErrorObj m s) = True"
| "typeofObject (Arr xs) = True"
| "typeofObject (Obj ps) = True"
| "typeofObject v = False"

text \<open>A destructuring default \<open>x = d\<close>: it applies to \<open>undefined\<close> only.\<close>

definition orDefault :: "jsdata \<Rightarrow> jsdata \<Rightarrow> jsdata" where
  "orDefault v d = (if v = Undefined then d else v)"

definition AssertionError :: jsdata where
  "AssertionError = ErrorObj ''AssertionError'' None"

definition defaultBoolean :: "jsdata \<Rightarrow> bool \<Rightarrow> bool" where
  "defaultBoolean v dft = (case v of Bool b \<Rightarrow> b | _ \<Rightarrow> dft)"

text \<open>
  \<open>SDK.ToDataType\<close>, with the members the source names. The mode names \<open>'brief'\<close> and
  \<open>'lite'\<close> are what \<open>SDK.IMode[SDK.IMode.brief]\<close> and \<open>SDK.IMode[SDK.IMode.lite]\<close> evaluate to:
  the reverse mapping of a numeric enum gives the member's name.
\<close>

datatype ToDataType = Normal | NoSource | NoSourceAndAssets | NoCode

definition normalizeReportType :: "jsdata \<Rightarrow> jsdata \<Rightarrow> ToDataType" where
  "normalizeReportType reportCodeType' mode' =
     (if mode' = Str ''brief'' then NoCode
      else if mode' = Str ''lite'' then
        (if truthy (getProp reportCodeType' ''noAssetsAndModuleSource'') then NoSourceAndAssets
         else NoSource)
      else if truthy (getProp reportCodeType' ''noCode'') then NoCode
      else if truthy (getProp reportCodeType' ''noAssetsAndModuleSource'') then NoSourceAndAssets
      else if truthy (getProp reportCodeType' ''noModuleSource'') then NoSource
      else Normal)"

record Features =
  loader :: bool
  plugins :: bool
  resolver :: bool
  "bundle" :: bool
  treeShaking :: bool
  lite :: bool

text \<open>
  The normalized options. Left out are the members that \<open>normalizeUserConfig\<close> copies from
  the configuration or its defaults without looking at them (\<open>sdkInstance\<close>,
  \<open>innerClientPath\<close>, \<open>supports\<close>, \<open>port\<close>, \<open>printLog\<close>, \<open>brief\<close>) and the \<open>linter\<close> object
  spread.
\<close>

record RsdoctorPluginOptionsNormalized =
  features :: Features
  skipLoaders :: jsdata
  disableClientServer :: bool
  reportCodeType :: ToDataType
  reportDir :: jsdata
  compressData :: jsdata
  mode :: jsdata

definition defaultReportCodeType :: jsdata where
  "defaultReportCodeType =
     Obj [(''noModuleSource'', Bool False), (''noAssetsAndModuleSource'', Bool False),
          (''noCode'', Bool False)]"

definition defaultOutput :: jsdata where
  "defaultOutput =
     Obj [(''reportCodeType'', defaultReportCodeType), (''reportDir'', Str []),
          (''compressData'', Bool True)]"

text \<open>
  The value of \<open>_features\<close> (lines 67 to 87), from \<open>features\<close> and \<open>mode\<close> after their
  defaults. \<open>Array.prototype.includes\<close> compares a string by equality.
\<close>

definition featuresOf :: "jsdata \<Rightarrow> jsdata \<Rightarrow> Features" where
  "featuresOf features' mode' =
     (case features' of
        Arr xs \<Rightarrow>
          \<lparr> loader = (Str ''loader'' \<in> set xs),
            plugins = (Str ''plugins'' \<in> set xs),
            resolver = (Str ''resolver'' \<in> set xs),
            bundle = (Str ''bundle'' \<in> set xs),
            treeShaking = (Str ''treeShaking'' \<in> set xs),
            lite = (Str ''lite'' \<in> set xs \<or> mode' = Str ''lite'') \<rparr>
      | _ \<Rightarrow>
          \<lparr> loader = defaultBoolean (getProp features' ''loader'') True,
            plugins = defaultBoolean (getProp features' ''plugins'') True,
            resolver = defaultBoolean (getProp features' ''resolver'') False,
            bundle = defaultBoolean (getProp features' ''bundle'') True,
            treeShaking = defaultBoolean (getProp features' ''treeShaking'') False,
            lite = (defaultBoolean (getProp features' ''lite'') False \<or> mode' = Str ''lite'') \<rparr>)"

text \<open>
  \<open>normalizeUserConfig(config = {})\<close>. Destructuring \<open>null\<close> throws a \<open>TypeError\<close>, and so does
  reading a member of an \<open>output\<close> that is \<open>null\<close>; a failed \<open>assert\<close> throws an
  \<open>AssertionError\<close>. The closing \<open>logger.info\<close> only prints.
\<close>

definition normalizeUserConfig :: "jsdata \<Rightarrow> RsdoctorPluginOptionsNormalized completion" where
  "normalizeUserConfig config' =
     (let config = orDefault config' (Obj [])
      in if config = Null then Throw TypeError
         else
           let linter = orDefault (getProp config ''linter'') (Obj []);
               features' = orDefault (getProp config ''features'') (Obj []);
               loaderInterceptorOptions = orDefault (getProp config ''loaderInterceptorOptions'') (Obj []);
               disableClientServer' = orDefault (getProp config ''disableClientServer'') (Bool False);
               output = orDefault (getProp config ''output'') defaultOutput;
               mode' = orDefault (getProp config ''mode'') (Str ''normal'')
           in if \<not> (truthy linter \<and> typeofObject linter) then Throw AssertionError
              else if \<not> (truthy features' \<and> typeofObject features') then Throw AssertionError
              else if \<not> (truthy loaderInterceptorOptions \<and> typeofObject loaderInterceptorOptions)
                then Throw AssertionError
              else (case disableClientServer' of
                      Bool dcs \<Rightarrow>
                        if output = Null then Throw TypeError
                        else Return
                          \<lparr> features = featuresOf features' mode',
                            skipLoaders =
                              (case getProp loaderInterceptorOptions ''skipLoaders'' of
                                 Arr ls \<Rightarrow> Arr ls
                               | _ \<Rightarrow> Arr []),
                            disableClientServer = dcs,
                            reportCodeType =
                              (if truthy (getProp output ''reportCodeType'')
                               then normalizeReportType (getProp output ''reportCodeType'') mode'
                               else normalizeReportType defaultReportCodeType mode'),
                            reportDir =
                              (if truthy (getProp output ''reportDir'')
                               then getProp output ''reportDir'' else Str []),
                            compressData =
                              (if getProp output ''compressData'' \<noteq> Undefined
                               then getProp output ''compressData'' else Bool True),
                            mode = mode' \<rparr>
                    | _ \<Rightarrow> Throw AssertionError))"

text \<open>Configurations: features as an array, as an object, and left out in \<open>lite\<close> mode.\<close>

definition configArray :: jsdata where
  "configArray = Obj [(''features'', Arr [Str ''loader'', Str ''resolver''])]"

definition configObject :: jsdata where
  "configObject = Obj [(''features'', Obj [(''plugins'', Bool False), (''treeShaking'', Bool True)])]"

definition configLite :: jsdata where
  "configLite = Obj [(''mode'', Str ''lite'')]"

section \<open>The reporter and the sink\<close>

lemma reportPluginData_ok:
  assumes "fails sdk [(hook, [mkRecord hook tn start (clock w) ty err])] w = None"
  shows "reportPluginData sdk hook tn start ty res err w =
           (Return (), w\<lparr>pluginData := (pluginData w)(hook \<mapsto> records w hook @ [mkRecord hook tn start (clock w) ty err])\<rparr>)"
  using assms
  by (simp add: reportPluginData_def reportPlugin_def Date_now_def records_def split: option.splits)

lemma reportPluginData_throws:
  assumes "fails sdk [(hook, [mkRecord hook tn start (clock w) ty err])] w = Some e"
  shows "reportPluginData sdk hook tn start ty res err w = (Throw e, w)"
  using assms
  by (simp add: reportPluginData_def reportPlugin_def Date_now_def)

text \<open>With a sink that never throws, both blocks of the \<open>try\<close> statement end as written.\<close>

lemma catchBlock_ok:
  assumes "\<forall>d w'. fails sdk d w' = None"
  shows "\<exists>w'. catchBlock sdk hook tn start ty e w = (e, w')"
  using assms
  by (simp add: catchBlock_def reportPluginData_def reportPlugin_def Let_def)

lemma tryReport_ok:
  assumes "\<forall>d w'. fails sdk d w' = None"
  shows "\<exists>w'. tryReport sdk hook tn start ty res w = (Return res, w')"
  using assms
  by (simp add: tryReport_def reportPluginData_def reportPlugin_def Let_def)

text \<open>With a sink that always throws \<open>t\<close>, both blocks end by throwing \<open>t\<close>.\<close>

lemma catchBlock_broken:
  assumes "\<forall>d w'. fails sdk d w' = Some t"
  shows "catchBlock sdk hook tn start ty e w = (t, w)"
  using assms
  by (simp add: catchBlock_def reportPluginData_def reportPlugin_def Let_def)

lemma tryReport_broken:
  assumes "\<forall>d w'. fails sdk d w' = Some t"
  shows "tryReport sdk hook tn start ty res w = (Throw t, w)"
  using assms
  by (simp add: tryReport_def catchBlock_def reportPluginData_def reportPlugin_def Let_def)

section \<open>Synchronous taps\<close>

text \<open>
  The synchronous proxy over a sink that never throws: the completion of the original
  callback, and one more record for the hook.
\<close>

lemma syncProxy_ok:
  assumes nofail: "\<forall>d w'. fails sdk d w' = None"
    and orig: "o' this arguments w = (c, w1)"
  shows "syncProxy sdk hook tn ty o' this arguments w =
           (c, w1\<lparr>pluginData := (pluginData w1)(hook \<mapsto> records w1 hook @
                 [mkRecord hook tn (clock w) (clock w1) ty (case c of Return v \<Rightarrow> Undefined | Throw e \<Rightarrow> e)])\<rparr>)"
proof (cases c)
  case (Return v)
  then show ?thesis
    using orig nofail reportPluginData_ok [of sdk hook tn "clock w" w1 ty Undefined v]
    by (simp add: syncProxy_def tryReport_def Date_now_def)
next
  case (Throw e)
  then show ?thesis
    using orig nofail reportPluginData_ok [of sdk hook tn "clock w" w1 ty e "Data Null :: 'a jsval"]
    by (simp add: syncProxy_def catchBlock_def Date_now_def)
qed

text \<open>
  C5. A synchronous tap whose callback, called with \<open>this\<close> and \<open>arguments\<close>, returns \<open>res\<close>:
  the proxy returns \<open>res\<close>, and the sink holds exactly one more record for the hook, whose
  \<open>result\<close> is \<open>null\<close> and whose \<open>error\<close> list is empty. The sink is taken to accept the
  submission.
\<close>

theorem sync_success_one_record:
  assumes sync: "tap.type tap = ''sync''"
    and orig: "fn tap this arguments w = (Return res, w1)"
    and r: "r = \<lparr> tapName = name tap, costs = clock w1 - clock w, startAt = clock w,
                  endAt = clock w1, type = ''sync'', result = Null, error = [] \<rparr>"
    and sink: "fails sdk [(hook, [r])] w1 = None"
  shows "fn (register sdk hook tap) this arguments w =
           (Return res, w1\<lparr>pluginData := (pluginData w1)(hook \<mapsto> records w1 hook @ [r])\<rparr>)"
proof -
  have m: "mkRecord hook (name tap) (clock w) (clock w1) ''sync'' Undefined = r"
    by (simp add: mkRecord_def r)
  have "reportPluginData sdk hook (name tap) (clock w) ''sync'' res Undefined w1 =
          (Return (), w1\<lparr>pluginData := (pluginData w1)(hook \<mapsto> records w1 hook @ [r])\<rparr>)"
    using reportPluginData_ok [of sdk hook "name tap" "clock w" w1 "''sync''" Undefined res] sink m
    by simp
  then show ?thesis
    using sync orig
    by (simp add: register_def syncProxy_def tryReport_def Date_now_def)
qed

theorem sync_success_one_record_witness:
  "tap.type tap42 = ''sync''
   \<and> fn tap42 (Data Undefined) [] w0 = (Return (Data (Num 42)), w0\<lparr>clock := 1005\<rparr>)
   \<and> fails sdkOk [(''compile'', [\<lparr> tapName = ''my-plugin'', costs = 5, startAt = 1000,
                  endAt = 1005, type = ''sync'', result = Null, error = [] \<rparr>])] (w0\<lparr>clock := 1005\<rparr>) = None
   \<and> fn (register sdkOk ''compile'' tap42) (Data Undefined) [] w0 =
       (Return (Data (Num 42)),
        \<lparr> clock = 1005,
          pluginData = [''compile'' \<mapsto> [\<lparr> tapName = ''my-plugin'', costs = 5, startAt = 1000,
                  endAt = 1005, type = ''sync'', result = Null, error = [] \<rparr>]],
          host = () \<rparr>)"
  using sync_success_one_record [of tap42 "Data Undefined" "[]" w0 "Data (Num 42)" "w0\<lparr>clock := 1005\<rparr>" _ sdkOk "''compile''"]
  by (simp add: tap42_def w0_def sdkOk_def records_def)

text \<open>
  C4. A synchronous tap whose callback throws an \<open>Error\<close> object: the proxy throws the same
  object, and the sink holds exactly one more record for the hook, whose error descriptor has
  the title \<open>"<tapName> <hookName> Error"\<close>, the message of the error and its stack. The sink
  is taken to accept the submission.
\<close>

theorem sync_throw_one_error_record:
  assumes sync: "tap.type tap = ''sync''"
    and orig: "fn tap this arguments w = (Throw (ErrorObj msg stk), w1)"
    and r: "r = \<lparr> tapName = name tap, costs = clock w1 - clock w, startAt = clock w,
                  endAt = clock w1, type = ''sync'', result = Null,
                  error = [\<lparr> title = name tap @ '' '' @ hook @ '' Error'',
                             message = Str msg, noStack = False, noColor = True,
                             stack = (case stk of None \<Rightarrow> Undefined | Some t \<Rightarrow> Str t) \<rparr>] \<rparr>"
    and sink: "fails sdk [(hook, [r])] w1 = None"
  shows "fn (register sdk hook tap) this arguments w =
           (Throw (ErrorObj msg stk), w1\<lparr>pluginData := (pluginData w1)(hook \<mapsto> records w1 hook @ [r])\<rparr>)"
proof -
  have m: "mkRecord hook (name tap) (clock w) (clock w1) ''sync'' (ErrorObj msg stk) = r"
    by (simp add: mkRecord_def r)
  have "reportPluginData sdk hook (name tap) (clock w) ''sync'' (Data Null :: 'a jsval) (ErrorObj msg stk) w1 =
          (Return (), w1\<lparr>pluginData := (pluginData w1)(hook \<mapsto> records w1 hook @ [r])\<rparr>)"
    using reportPluginData_ok [of sdk hook "name tap" "clock w" w1 "''sync''" "ErrorObj msg stk"] sink m
    by simp
  then show ?thesis
    using sync orig
    by (simp add: register_def syncProxy_def catchBlock_def Date_now_def)
qed

theorem sync_throw_one_error_record_witness:
  "tap.type tapBoom = ''sync''
   \<and> fn tapBoom (Data Undefined) [] w0 = (Throw (ErrorObj ''boom'' (Some ''Error: boom at tap.js:1'')), w0\<lparr>clock := 1005\<rparr>)
   \<and> fails sdkOk [(''compile'', [\<lparr> tapName = ''my-plugin'', costs = 5, startAt = 1000,
                  endAt = 1005, type = ''sync'', result = Null,
                  error = [\<lparr> title = ''my-plugin compile Error'', message = Str ''boom'',
                             noStack = False, noColor = True,
                             stack = Str ''Error: boom at tap.js:1'' \<rparr>] \<rparr>])] (w0\<lparr>clock := 1005\<rparr>) = None
   \<and> fn (register sdkOk ''compile'' tapBoom) (Data Undefined) [] w0 =
       (Throw (ErrorObj ''boom'' (Some ''Error: boom at tap.js:1'')),
        \<lparr> clock = 1005,
          pluginData = [''compile'' \<mapsto> [\<lparr> tapName = ''my-plugin'', costs = 5, startAt = 1000,
                  endAt = 1005, type = ''sync'', result = Null,
                  error = [\<lparr> title = ''my-plugin compile Error'', message = Str ''boom'',
                             noStack = False, noColor = True,
                             stack = Str ''Error: boom at tap.js:1'' \<rparr>] \<rparr>]],
          host = () \<rparr>)"
  using sync_throw_one_error_record [of tapBoom "Data Undefined" "[]" w0 "''boom''" "Some ''Error: boom at tap.js:1''" "w0\<lparr>clock := 1005\<rparr>" _ "''compile''" sdkOk]
  by (simp add: tapBoom_def boom_def w0_def sdkOk_def records_def)

text \<open>
  JavaScript can throw any value. The reporter tests \<open>err\<close> for truthiness, so a thrown value
  that is falsy (\<open>undefined\<close>, \<open>null\<close>, \<open>0\<close>, the empty string) is thrown again by the proxy
  but leaves a record without an error descriptor.
\<close>

lemma sync_throw_falsy_no_descriptor:
  assumes sync: "tap.type tap = ''sync''"
    and orig: "fn tap this arguments w = (Throw e, w1)"
    and falsy: "\<not> truthy e"
    and r: "r = \<lparr> tapName = name tap, costs = clock w1 - clock w, startAt = clock w,
                  endAt = clock w1, type = ''sync'', result = Null, error = [] \<rparr>"
    and sink: "fails sdk [(hook, [r])] w1 = None"
  shows "fn (register sdk hook tap) this arguments w =
           (Throw e, w1\<lparr>pluginData := (pluginData w1)(hook \<mapsto> records w1 hook @ [r])\<rparr>)"
proof -
  have m: "mkRecord hook (name tap) (clock w) (clock w1) ''sync'' e = r"
    using falsy by (simp add: mkRecord_def r)
  have "reportPluginData sdk hook (name tap) (clock w) ''sync'' (Data Null :: 'a jsval) e w1 =
          (Return (), w1\<lparr>pluginData := (pluginData w1)(hook \<mapsto> records w1 hook @ [r])\<rparr>)"
    using reportPluginData_ok [of sdk hook "name tap" "clock w" w1 "''sync''" e] sink m
    by simp
  then show ?thesis
    using sync orig
    by (simp add: register_def syncProxy_def catchBlock_def Date_now_def)
qed

section \<open>The registration observer\<close>

text \<open>
  C7. A tap whose \<open>type\<close> is none of \<open>'sync'\<close>, \<open>'async'\<close> and \<open>'promise'\<close> comes back from the
  observer as it went in.
\<close>

theorem unrecognized_type_untouched:
  assumes "tap.type tap \<noteq> ''sync''" and "tap.type tap \<noteq> ''async''" and "tap.type tap \<noteq> ''promise''"
  shows "register sdk hook tap = tap"
  using assms by (simp add: register_def)

theorem unrecognized_type_untouched_witness:
  "tap.type tapOther \<noteq> ''sync'' \<and> tap.type tapOther \<noteq> ''async'' \<and> tap.type tapOther \<noteq> ''promise''
   \<and> register sdkOk ''compile'' tapOther = tapOther"
  using unrecognized_type_untouched [of tapOther sdkOk "''compile''"]
  by (simp add: tapOther_def)

text \<open>
  C9. The observer changes the \<open>fn\<close> member of a tap and nothing else: the name, the type and
  every further member are those of the tap it was given.
\<close>

theorem register_only_fn:
  "register sdk hook tap = tap\<lparr>fn := fn (register sdk hook tap)\<rparr>
   \<and> name (register sdk hook tap) = name tap
   \<and> tap.type (register sdk hook tap) = tap.type tap
   \<and> tap.more (register sdk hook tap) = tap.more tap"
  by (simp add: register_def Let_def)

text \<open>
  C8. On a hook that is \<open>null\<close> or has no \<open>intercept\<close> member, \<open>interceptPluginHook\<close> returns
  and leaves the hook as it was.
\<close>

theorem no_interception_point_noop:
  assumes "hook = None \<or> (\<exists>h. hook = Some h \<and> intercept h = None)"
  shows "interceptPluginHook sdk name' hook = hook"
  using assms by (auto simp: interceptPluginHook_def)

theorem no_interception_point_noop_witness:
  "intercept hookPlain = None
   \<and> interceptPluginHook sdkOk ''compile'' (Some hookPlain) = Some hookPlain
   \<and> interceptPluginHook sdkOk ''compile'' (None :: (unit, unit, (unit, unit) hostRegistry) IHook option) = None"
  using no_interception_point_noop [of "Some hookPlain" sdkOk "''compile''"]
    no_interception_point_noop [of "None :: (unit, unit, (unit, unit) hostRegistry) IHook option" sdkOk "''compile''"]
  by (simp add: hookPlain_def)

section \<open>Promise taps\<close>

lemma isChildOf_no_argument: "isChildOf [] w = (Return (Data Undefined), w)"
  by (simp add: isChildOf_def)

lemma isChildOf_nullish_argument:
  "nullishV a \<Longrightarrow> isChildOf (a # rest) w = (Return (Data Undefined), w)"
  by (simp add: isChildOf_def)

lemma isChildOf_no_compiler:
  "nullishV (getPropV a ''compiler'') \<Longrightarrow> isChildOf (a # rest) w = (Return (Data Undefined), w)"
  by (simp add: isChildOf_def Let_def)

text \<open>
  C6, as the code has it. A promise tap called outside a child context (\<open>isChild\<close> is falsy:
  the predicate gave \<open>false\<close>, or there is no first argument or no \<open>compiler\<close> on it, see the
  three lemmas above), whose promise settles with \<open>s\<close>: the promise of the proxy settles with
  \<open>s\<close> too, and the sink, taken to accept the submission, then holds exactly one more record
  for the hook. The reporter tests the reason for truthiness: the record has an error
  descriptor if and only if \<open>s\<close> is a rejection with a truthy reason, as every \<open>Error\<close> object
  is.
\<close>

theorem promise_not_child_one_record:
  assumes promise: "tap.type tap = ''promise''"
    and child: "isChildOf arguments w = (Return isChild, w1)"
    and notChild: "\<not> truthyV isChild"
    and orig: "fn tap this arguments w1 = (Return (Promise p), w2)"
    and settles: "p wr = Some (s, w3)"
    and r: "r = mkRecord hook (name tap) (clock w) (clock w3) ''promise''
                  (case s of Fulfilled v \<Rightarrow> Undefined | Rejected e \<Rightarrow> e)"
    and sink: "fails sdk [(hook, [r])] w3 = None"
  shows "snd (fn (register sdk hook tap) this arguments w) = w2
           \<and> settle (fn (register sdk hook tap) this arguments w) wr =
               Some (s, w3\<lparr>pluginData := (pluginData w3)(hook \<mapsto> records w3 hook @ [r])\<rparr>)
           \<and> (error r \<noteq> [] \<longleftrightarrow> (\<exists>e. s = Rejected e \<and> truthy e))"
proof (cases s)
  case (Fulfilled v)
  have "reportPluginData sdk hook (name tap) (clock w) ''promise'' v Undefined w3 =
          (Return (), w3\<lparr>pluginData := (pluginData w3)(hook \<mapsto> records w3 hook @ [r])\<rparr>)"
    using reportPluginData_ok [of sdk hook "name tap" "clock w" w3 "''promise''" Undefined v] sink r Fulfilled
    by simp
  moreover have "error r = []"
    using r Fulfilled by (simp add: mkRecord_def)
  ultimately show ?thesis
    using promise child notChild orig settles Fulfilled
    by (simp add: register_def promiseProxy_def promise_then_def promise_catch_def Date_now_def
        settle_def Let_def)
next
  case (Rejected e)
  have "reportPluginData sdk hook (name tap) (clock w) ''promise'' (Data Null :: 'a jsval) e w3 =
          (Return (), w3\<lparr>pluginData := (pluginData w3)(hook \<mapsto> records w3 hook @ [r])\<rparr>)"
    using reportPluginData_ok [of sdk hook "name tap" "clock w" w3 "''promise''" e] sink r Rejected
    by simp
  moreover have "error r \<noteq> [] \<longleftrightarrow> truthy e"
    using r Rejected by (simp add: mkRecord_def)
  ultimately show ?thesis
    using promise child notChild orig settles Rejected
    by (simp add: register_def promiseProxy_def promise_then_def promise_catch_def
        catchBlock_def Date_now_def settle_def Let_def)
qed

theorem promise_not_child_one_record_witness:
  "tap.type tapReject = ''promise''
   \<and> isChildOf [topArg] w0 = (Return (Data (Bool False)), w0)
   \<and> \<not> truthyV (Data (Bool False) :: unit jsval)
   \<and> settle (fn tapReject (Data Undefined) [topArg] w0) w0 =
         Some (Rejected (ErrorObj ''boom'' (Some ''Error: boom at tap.js:1'')), w0\<lparr>clock := 1003\<rparr>)
   \<and> truthy (ErrorObj ''boom'' (Some ''Error: boom at tap.js:1''))
   \<and> settle (fn (register sdkOk ''afterCompile'' tapReject) (Data Undefined) [topArg] w0) w0 =
         Some (Rejected (ErrorObj ''boom'' (Some ''Error: boom at tap.js:1'')),
               \<lparr> clock = 1003,
                 pluginData = [''afterCompile'' \<mapsto> [\<lparr> tapName = ''summary'', costs = 3, startAt = 1000,
                    endAt = 1003, type = ''promise'', result = Null,
                    error = [\<lparr> title = ''summary afterCompile Error'', message = Str ''boom'',
                               noStack = False, noColor = True,
                               stack = Str ''Error: boom at tap.js:1'' \<rparr>] \<rparr>]],
                 host = () \<rparr>)
   \<and> tap.type tapResolve = ''promise''
   \<and> settle (fn tapResolve (Data Undefined) [topArg] w0) w0 =
         Some (Fulfilled (Data (Num 7)), w0\<lparr>clock := 1003\<rparr>)
   \<and> settle (fn (register sdkOk ''afterCompile'' tapResolve) (Data Undefined) [topArg] w0) w0 =
         Some (Fulfilled (Data (Num 7)),
               \<lparr> clock = 1003,
                 pluginData = [''afterCompile'' \<mapsto> [\<lparr> tapName = ''summary'', costs = 3, startAt = 1000,
                    endAt = 1003, type = ''promise'', result = Null, error = [] \<rparr>]],
                 host = () \<rparr>)"
proof -
  let ?p = "\<lambda>w'. Some (Fulfilled (Data (Num 7) :: unit jsval), w'\<lparr>clock := clock w' + 3\<rparr>)"
  let ?q = "\<lambda>w'. Some (Rejected boom :: unit jsval settlement, w'\<lparr>clock := clock w' + 3\<rparr>)"
  have h1: "tap.type tapResolve = ''promise''" by (simp add: tapResolve_def)
  have k1: "tap.type tapReject = ''promise''" by (simp add: tapReject_def)
  have h2: "isChildOf [topArg] w0 = (Return (Data (Bool False)), w0)"
    by (simp add: isChildOf_def topArg_def)
  have h3: "\<not> truthyV (Data (Bool False) :: unit jsval)" by simp
  have h4: "fn tapResolve (Data Undefined) [topArg] w0 = (Return (Promise ?p), w0)"
    by (simp add: tapResolve_def)
  have k4: "fn tapReject (Data Undefined) [topArg] w0 = (Return (Promise ?q), w0)"
    by (simp add: tapReject_def)
  have h5: "?p w0 = Some (Fulfilled (Data (Num 7)), w0\<lparr>clock := 1003\<rparr>)"
    by (simp add: w0_def)
  have k5: "?q w0 = Some (Rejected boom, w0\<lparr>clock := 1003\<rparr>)"
    by (simp add: w0_def)
  have h7: "fails sdkOk [(''afterCompile'', [mkRecord ''afterCompile'' (name tapResolve) (clock w0) (clock (w0\<lparr>clock := 1003\<rparr>)) ''promise''
                  (case (Fulfilled (Data (Num 7)) :: unit jsval settlement) of Fulfilled v \<Rightarrow> Undefined | Rejected e \<Rightarrow> e)])] (w0\<lparr>clock := 1003\<rparr>) = None"
    by (simp add: sdkOk_def)
  have k7: "fails sdkOk [(''afterCompile'', [mkRecord ''afterCompile'' (name tapReject) (clock w0) (clock (w0\<lparr>clock := 1003\<rparr>)) ''promise''
                  (case (Rejected boom :: unit jsval settlement) of Fulfilled v \<Rightarrow> Undefined | Rejected e \<Rightarrow> e)])] (w0\<lparr>clock := 1003\<rparr>) = None"
    by (simp add: sdkOk_def)
  have fulfilled: "settle (fn (register sdkOk ''afterCompile'' tapResolve) (Data Undefined) [topArg] w0) w0 =
         Some (Fulfilled (Data (Num 7)),
               \<lparr> clock = 1003,
                 pluginData = [''afterCompile'' \<mapsto> [\<lparr> tapName = ''summary'', costs = 3, startAt = 1000,
                    endAt = 1003, type = ''promise'', result = Null, error = [] \<rparr>]],
                 host = () \<rparr>)"
    using promise_not_child_one_record [OF h1 h2 h3 h4 h5 refl h7]
    by (simp add: w0_def mkRecord_def records_def tapResolve_def)
  have rejected: "settle (fn (register sdkOk ''afterCompile'' tapReject) (Data Undefined) [topArg] w0) w0 =
         Some (Rejected (ErrorObj ''boom'' (Some ''Error: boom at tap.js:1'')),
               \<lparr> clock = 1003,
                 pluginData = [''afterCompile'' \<mapsto> [\<lparr> tapName = ''summary'', costs = 3, startAt = 1000,
                    endAt = 1003, type = ''promise'', result = Null,
                    error = [\<lparr> title = ''summary afterCompile Error'', message = Str ''boom'',
                               noStack = False, noColor = True,
                               stack = Str ''Error: boom at tap.js:1'' \<rparr>] \<rparr>]],
                 host = () \<rparr>)"
    using promise_not_child_one_record [OF k1 h2 h3 k4 k5 refl k7]
    by (simp add: w0_def mkRecord_def records_def tapReject_def boom_def)
  show ?thesis
    using fulfilled rejected h1 k1 h2 h4 k4 h5 k5
    by (simp add: settle_def boom_def)
qed

text \<open>
  The claim as stated fails: outside a child context a promise rejected with \<open>undefined\<close>
  leaves one record, and the record has no error descriptor.
\<close>

theorem promise_not_child_counterexample:
  "isChildOf [topArg] w0 = (Return (Data (Bool False)), w0)
   \<and> settle (fn tapRejectUndefined (Data Undefined) [topArg] w0) w0 =
         Some (Rejected Undefined, w0\<lparr>clock := 1003\<rparr>)
   \<and> settle (fn (register sdkOk ''afterCompile'' tapRejectUndefined) (Data Undefined) [topArg] w0) w0 =
         Some (Rejected Undefined,
               \<lparr> clock = 1003,
                 pluginData = [''afterCompile'' \<mapsto> [\<lparr> tapName = ''summary'', costs = 3, startAt = 1000,
                    endAt = 1003, type = ''promise'', result = Null, error = [] \<rparr>]],
                 host = () \<rparr>)"
  by (simp add: settle_def tapRejectUndefined_def topArg_def isChildOf_def register_def promiseProxy_def
      promise_then_def promise_catch_def catchBlock_def reportPluginData_def reportPlugin_def
      mkRecord_def Date_now_def sdkOk_def w0_def)

text \<open>
  In a child context a promise that is fulfilled is passed on and nothing is reported: the
  \<open>then\<close> handler returns before the report.
\<close>

lemma promise_child_fulfilled_silent:
  assumes promise: "tap.type tap = ''promise''"
    and child: "isChildOf arguments w = (Return isChild, w1)"
    and isChild: "truthyV isChild"
    and orig: "fn tap this arguments w1 = (Return (Promise p), w2)"
    and settles: "p wr = Some (Fulfilled v, w3)"
  shows "snd (fn (register sdk hook tap) this arguments w) = w2
           \<and> settle (fn (register sdk hook tap) this arguments w) wr = Some (Fulfilled v, w3)"
  using assms
  by (simp add: register_def promiseProxy_def promise_then_def promise_catch_def Date_now_def
      settle_def Let_def)

text \<open>
  C1. In a child context (\<open>compiler.isChild()\<close> gives \<open>true\<close>) a promise tap whose promise is
  rejected: the claim is that nothing is reported. The \<open>catch\<close> handler of the proxy does not
  look at \<open>isChild\<close>: the rejection is passed on, and one record with an error descriptor
  reaches the sink.
\<close>

theorem promise_child_rejection_reported:
  "isChildOf [childArg] w0 = (Return (Data (Bool True)), w0)
   \<and> settle (fn tapReject (Data Undefined) [childArg] w0) w0 = Some (Rejected boom, w0\<lparr>clock := 1003\<rparr>)
   \<and> settle (fn (register sdkOk ''afterCompile'' tapReject) (Data Undefined) [childArg] w0) w0 =
       Some (Rejected boom,
         \<lparr> clock = 1003,
           pluginData = [''afterCompile'' \<mapsto> [\<lparr> tapName = ''summary'', costs = 3, startAt = 1000,
                  endAt = 1003, type = ''promise'', result = Null,
                  error = [\<lparr> title = ''summary afterCompile Error'', message = Str ''boom'',
                             noStack = False, noColor = True,
                             stack = Str ''Error: boom at tap.js:1'' \<rparr>] \<rparr>]],
           host = () \<rparr>)"
  by (simp add: settle_def tapReject_def childArg_def isChildOf_def register_def promiseProxy_def
      promise_then_def promise_catch_def catchBlock_def reportPluginData_def reportPlugin_def
      mkRecord_def Date_now_def sdkOk_def w0_def boom_def)

section \<open>Intercepting twice\<close>

lemma double_intercept_registers_twice:
  assumes "intercept h = Some hostIntercept"
  shows "registeredTap (interceptPluginHook sdk hook (interceptPluginHook sdk hook (Some h))) tap =
           register sdk hook (register sdk hook (registeredTap (Some h) tap))"
  using assms
  by (simp add: registeredTap_def interceptPluginHook_def hostIntercept_def hostTap_def Let_def)

text \<open>
  C3, as the code has it. \<open>interceptPluginHook\<close> called twice with the same session and hook
  name installs two observers on the hook, and a tap registered afterwards (on a hook with no
  other observer) is instrumented twice: the observer is applied to the tap it has already
  instrumented. For a synchronous tap that is a proxy around a proxy; a call of it ends as the
  original callback does, and the sink (which never throws here) holds two more records for
  the hook, one of each proxy.
\<close>

theorem double_intercept_double_report:
  assumes hook: "intercept h = Some hostIntercept"
    and fresh: "interceptors (registry h) = []"
    and t2: "tap2 = registeredTap (interceptPluginHook sdk hook (interceptPluginHook sdk hook (Some h))) tap"
    and r: "r = mkRecord hook (name tap) (clock w) (clock w1) ''sync''
                  (case c of Return v \<Rightarrow> Undefined | Throw e \<Rightarrow> e)"
  shows "tap2 = register sdk hook (register sdk hook tap)
         \<and> (tap.type tap = ''sync'' \<and> (\<forall>d w'. fails sdk d w' = None)
              \<and> fn tap this arguments w = (c, w1) \<longrightarrow>
              fn tap2 = syncProxy sdk hook (name tap) ''sync'' (syncProxy sdk hook (name tap) ''sync'' (fn tap))
              \<and> fst (fn tap2 this arguments w) = c
              \<and> records (snd (fn tap2 this arguments w)) hook = records w1 hook @ [r, r])"
proof (intro conjI impI)
  have reg: "registeredTap (Some h) tap = tap"
    using fresh by (simp add: registeredTap_def hostTap_def)
  show t2': "tap2 = register sdk hook (register sdk hook tap)"
    using double_intercept_registers_twice [OF hook] reg t2 by simp
  assume a: "tap.type tap = ''sync'' \<and> (\<forall>d w'. fails sdk d w' = None)
              \<and> fn tap this arguments w = (c, w1)"
  then have sync: "tap.type tap = ''sync''" and nofail: "\<forall>d w'. fails sdk d w' = None"
    and orig: "fn tap this arguments w = (c, w1)"
    by blast+
  show f2: "fn tap2 = syncProxy sdk hook (name tap) ''sync'' (syncProxy sdk hook (name tap) ''sync'' (fn tap))"
    using t2' sync by (simp add: register_def)
  let ?w2 = "w1\<lparr>pluginData := (pluginData w1)(hook \<mapsto> records w1 hook @ [r])\<rparr>"
  have inner: "syncProxy sdk hook (name tap) ''sync'' (fn tap) this arguments w = (c, ?w2)"
    using syncProxy_ok [of sdk "fn tap" this arguments w c w1 hook "name tap" "''sync''"] nofail orig r
    by simp
  have outer: "syncProxy sdk hook (name tap) ''sync'' (syncProxy sdk hook (name tap) ''sync'' (fn tap)) this arguments w =
                 (c, ?w2\<lparr>pluginData := (pluginData ?w2)(hook \<mapsto> records ?w2 hook @
                   [mkRecord hook (name tap) (clock w) (clock ?w2) ''sync'' (case c of Return v \<Rightarrow> Undefined | Throw e \<Rightarrow> e)])\<rparr>)"
    using syncProxy_ok [of sdk "syncProxy sdk hook (name tap) ''sync'' (fn tap)" this arguments w c ?w2
        hook "name tap" "''sync''"] nofail inner
    by simp
  show "fst (fn tap2 this arguments w) = c"
    using f2 outer by simp
  show "records (snd (fn tap2 this arguments w)) hook = records w1 hook @ [r, r]"
    using f2 outer r by (simp add: records_def)
qed

text \<open>
  The claim as stated fails: after two calls of \<open>interceptPluginHook\<close> on a fresh hook, one
  call of the tap that returns 42 leaves two records.
\<close>

theorem double_intercept_counterexample:
  "records (snd (fn (registeredTap (interceptPluginHook sdkOk ''compile''
                       (interceptPluginHook sdkOk ''compile'' (Some hook0))) tap42)
                  (Data Undefined) [] w0)) ''compile'' =
     [\<lparr> tapName = ''my-plugin'', costs = 5, startAt = 1000, endAt = 1005, type = ''sync'',
        result = Null, error = [] \<rparr>,
      \<lparr> tapName = ''my-plugin'', costs = 5, startAt = 1000, endAt = 1005, type = ''sync'',
        result = Null, error = [] \<rparr>]"
  by (simp add: registeredTap_def interceptPluginHook_def hook0_def hostIntercept_def hostTap_def
      register_def tap42_def syncProxy_def tryReport_def reportPluginData_def reportPlugin_def
      mkRecord_def Date_now_def sdkOk_def w0_def records_def Let_def)

theorem double_intercept_double_report_witness:
  "intercept hook0 = Some hostIntercept
   \<and> interceptors (registry hook0) = []
   \<and> tap.type tap42 = ''sync''
   \<and> (\<forall>d w'. fails sdkOk d w' = None)
   \<and> fn tap42 (Data Undefined) [] w0 = (Return (Data (Num 42)), w0\<lparr>clock := 1005\<rparr>)
   \<and> fst (fn (registeredTap (interceptPluginHook sdkOk ''compile''
                 (interceptPluginHook sdkOk ''compile'' (Some hook0))) tap42) (Data Undefined) [] w0) =
       Return (Data (Num 42))
   \<and> records (snd (fn (registeredTap (interceptPluginHook sdkOk ''compile''
                 (interceptPluginHook sdkOk ''compile'' (Some hook0))) tap42) (Data Undefined) [] w0)) ''compile'' =
       [\<lparr> tapName = ''my-plugin'', costs = 5, startAt = 1000, endAt = 1005, type = ''sync'',
          result = Null, error = [] \<rparr>,
        \<lparr> tapName = ''my-plugin'', costs = 5, startAt = 1000, endAt = 1005, type = ''sync'',
          result = Null, error = [] \<rparr>]"
proof -
  have h1: "intercept hook0 = Some hostIntercept" by (simp add: hook0_def)
  have h2: "interceptors (registry hook0) = []" by (simp add: hook0_def)
  have h3: "tap.type tap42 = ''sync''" by (simp add: tap42_def)
  have h4: "\<forall>d w'. fails sdkOk d w' = None" by (simp add: sdkOk_def)
  have h5: "fn tap42 (Data Undefined) [] w0 = (Return (Data (Num 42)), w0\<lparr>clock := 1005\<rparr>)"
    by (simp add: tap42_def w0_def)
  have r: "mkRecord ''compile'' (name tap42) (clock w0) (clock (w0\<lparr>clock := 1005\<rparr>)) ''sync''
             (case (Return (Data (Num 42)) :: unit jsval completion) of Return v \<Rightarrow> Undefined | Throw e \<Rightarrow> e) =
           \<lparr> tapName = ''my-plugin'', costs = 5, startAt = 1000, endAt = 1005, type = ''sync'',
             result = Null, error = [] \<rparr>"
    by (simp add: mkRecord_def tap42_def w0_def)
  have before: "records (w0\<lparr>clock := 1005\<rparr>) ''compile'' = []"
    by (simp add: records_def w0_def)
  note twice = double_intercept_double_report [where h = hook0 and tap = tap42 and sdk = sdkOk
      and hook = "''compile''" and this = "Data Undefined" and arguments = "[]" and w = w0
      and c = "Return (Data (Num 42))" and ?w1.0 = "w0\<lparr>clock := 1005\<rparr>", OF h1 h2 refl refl]
  have "tap.type tap42 = ''sync'' \<and> (\<forall>d w'. fails sdkOk d w' = None)
          \<and> fn tap42 (Data Undefined) [] w0 = (Return (Data (Num 42)), w0\<lparr>clock := 1005\<rparr>)"
    using h3 h4 h5 by blast
  then have called: "fst (fn (registeredTap (interceptPluginHook sdkOk ''compile''
                 (interceptPluginHook sdkOk ''compile'' (Some hook0))) tap42) (Data Undefined) [] w0) =
       Return (Data (Num 42))
     \<and> records (snd (fn (registeredTap (interceptPluginHook sdkOk ''compile''
                 (interceptPluginHook sdkOk ''compile'' (Some hook0))) tap42) (Data Undefined) [] w0)) ''compile'' =
       records (w0\<lparr>clock := 1005\<rparr>) ''compile'' @
         [mkRecord ''compile'' (name tap42) (clock w0) (clock (w0\<lparr>clock := 1005\<rparr>)) ''sync''
             (case (Return (Data (Num 42)) :: unit jsval completion) of Return v \<Rightarrow> Undefined | Throw e \<Rightarrow> e),
          mkRecord ''compile'' (name tap42) (clock w0) (clock (w0\<lparr>clock := 1005\<rparr>)) ''sync''
             (case (Return (Data (Num 42)) :: unit jsval completion) of Return v \<Rightarrow> Undefined | Throw e \<Rightarrow> e)]"
    using twice [THEN conjunct2] by blast
  show ?thesis
    using called h1 h2 h3 h4 h5
    by (simp only: r before append_Nil simp_thms)
qed

section \<open>Errors of the telemetry path\<close>

lemma sync_outcome:
  assumes "\<forall>d w'. fails sdk d w' = None"
  shows "fst (syncProxy sdk hook tn ty o' this arguments w) = fst (o' this arguments w)"
proof (cases "o' this arguments w")
  case (Pair c w1)
  show ?thesis
  proof (cases c)
    case (Return v)
    obtain w' where "tryReport sdk hook tn (clock w) ty v w1 = (Return v, w')"
      using tryReport_ok [OF assms] by blast
    then show ?thesis
      using Pair Return by (simp add: syncProxy_def Date_now_def Let_def)
  next
    case (Throw e)
    obtain w' where "catchBlock sdk hook tn (clock w) ty e w1 = (e, w')"
      using catchBlock_ok [OF assms] by blast
    then show ?thesis
      using Pair Throw by (simp add: syncProxy_def Date_now_def Let_def)
  qed
qed

lemma sync_broken:
  assumes "\<forall>d w'. fails sdk d w' = Some t"
  shows "fst (syncProxy sdk hook tn ty o' this arguments w) = Throw t"
proof (cases "o' this arguments w")
  case (Pair c w1)
  then show ?thesis
    using tryReport_broken [OF assms] catchBlock_broken [OF assms]
    by (cases c) (simp_all add: syncProxy_def Date_now_def Let_def)
qed

lemma async_outcome:
  assumes "\<forall>d w'. fails sdk d w' = None"
  shows "outcome ''async'' (asyncProxy sdk hook tn ty o' this arguments w) wr =
         outcome ''async'' (o' this arguments w) wr"
proof (cases "o' this arguments w")
  case (Pair c w1)
  show ?thesis
  proof (cases c)
    case (Throw e)
    obtain w' where "catchBlock sdk hook tn (clock w) ty e w1 = (e, w')"
      using catchBlock_ok [OF assms] by blast
    then show ?thesis
      using Pair Throw
      by (simp add: outcome_def asyncProxy_def Date_now_def await_def settlementOf_def Let_def)
  next
    case (Return x)
    show ?thesis
    proof (cases "await x wr")
      case None
      then show ?thesis
        using Pair Return
        by (simp add: outcome_def asyncProxy_def Date_now_def settlementOf_def
            await_def [of "Promise _"] Let_def)
    next
      case (Some sw)
      obtain s w2 where sw: "sw = (s, w2)" by (cases sw)
      show ?thesis
      proof (cases s)
        case (Fulfilled v)
        obtain w' where "tryReport sdk hook tn (clock w) ty v w2 = (Return v, w')"
          using tryReport_ok [OF assms] by blast
        then show ?thesis
          using Pair Return Some sw Fulfilled
          by (simp add: outcome_def asyncProxy_def Date_now_def settlementOf_def
              await_def [of "Promise _"] Let_def)
      next
        case (Rejected e)
        obtain w' where "catchBlock sdk hook tn (clock w) ty e w2 = (e, w')"
          using catchBlock_ok [OF assms] by blast
        then show ?thesis
          using Pair Return Some sw Rejected
          by (simp add: outcome_def asyncProxy_def Date_now_def settlementOf_def
              await_def [of "Promise _"] Let_def)
      qed
    qed
  qed
qed

lemma promise_outcome:
  assumes nofail: "\<forall>d w'. fails sdk d w' = None"
    and child: "isChildOf arguments w = (Return ic, w)"
    and wellformed: "promiseOrThrow (o' this arguments w)"
  shows "outcome ''promise'' (promiseProxy sdk hook tn ty o' this arguments w) wr =
         outcome ''promise'' (o' this arguments w) wr"
proof (cases "o' this arguments w")
  case (Pair c w1)
  show ?thesis
  proof (cases c)
    case (Throw e)
    then show ?thesis
      using Pair child by (simp add: outcome_def promiseProxy_def Let_def)
  next
    case (Return x)
    then obtain p where x: "x = Promise p"
      using wellformed Pair by (cases x) (simp_all add: promiseOrThrow_def)
    show ?thesis
    proof (cases "p wr")
      case None
      then show ?thesis
        using Pair Return x child
        by (simp add: outcome_def promiseProxy_def settlementOf_def promise_then_def
            promise_catch_def Let_def)
    next
      case (Some sw)
      obtain s w2 where sw: "sw = (s, w2)" by (cases sw)
      show ?thesis
      proof (cases s)
        case (Fulfilled v)
        obtain w' where "reportPluginData sdk hook tn (clock w) ty v Undefined w2 = (Return (), w')"
          using nofail by (simp add: reportPluginData_def reportPlugin_def Let_def)
        then show ?thesis
          using Pair Return x child Some sw Fulfilled
          by (simp add: outcome_def promiseProxy_def settlementOf_def promise_then_def
              promise_catch_def Date_now_def Let_def)
      next
        case (Rejected e)
        obtain w' where "catchBlock sdk hook tn (clock w) ty e w2 = (e, w')"
          using catchBlock_ok [OF nofail] by blast
        then show ?thesis
          using Pair Return x child Some sw Rejected
          by (simp add: outcome_def promiseProxy_def settlementOf_def promise_then_def
              promise_catch_def Date_now_def Let_def)
      qed
    qed
  qed
qed

lemma async_broken:
  assumes "\<forall>d w'. fails sdk d w' = Some t"
  shows "outcome ''async'' (asyncProxy sdk hook tn ty o' this arguments w) wr =
           (if outcome ''async'' (o' this arguments w) wr = Pending then Pending
            else Settled (Rejected t))"
proof (cases "o' this arguments w")
  case (Pair c w1)
  show ?thesis
  proof (cases c)
    case (Throw e)
    then show ?thesis
      using Pair catchBlock_broken [OF assms]
      by (simp add: outcome_def asyncProxy_def Date_now_def await_def settlementOf_def Let_def)
  next
    case (Return x)
    show ?thesis
    proof (cases "await x wr")
      case None
      then show ?thesis
        using Pair Return
        by (simp add: outcome_def asyncProxy_def Date_now_def settlementOf_def
            await_def [of "Promise _"] Let_def)
    next
      case (Some sw)
      obtain s w2 where sw: "sw = (s, w2)" by (cases sw)
      show ?thesis
        using Pair Return Some sw tryReport_broken [OF assms] catchBlock_broken [OF assms]
        by (cases s)
          (simp_all add: outcome_def asyncProxy_def Date_now_def settlementOf_def
            await_def [of "Promise _"] Let_def)
    qed
  qed
qed

lemma promise_broken:
  assumes allfail: "\<forall>d w'. fails sdk d w' = Some t"
    and child: "isChildOf arguments w = (Return ic, w)"
    and notChild: "\<not> truthyV ic"
    and wellformed: "promiseOrThrow (o' this arguments w)"
  shows "outcome ''promise'' (promiseProxy sdk hook tn ty o' this arguments w) wr =
           (case outcome ''promise'' (o' this arguments w) wr of
              Settled s \<Rightarrow> Settled (Rejected t)
            | other \<Rightarrow> other)"
proof (cases "o' this arguments w")
  case (Pair c w1)
  show ?thesis
  proof (cases c)
    case (Throw e)
    then show ?thesis
      using Pair child by (simp add: outcome_def promiseProxy_def Let_def)
  next
    case (Return x)
    then obtain p where x: "x = Promise p"
      using wellformed Pair by (cases x) (simp_all add: promiseOrThrow_def)
    show ?thesis
    proof (cases "p wr")
      case None
      then show ?thesis
        using Pair Return x child
        by (simp add: outcome_def promiseProxy_def settlementOf_def promise_then_def
            promise_catch_def Let_def)
    next
      case (Some sw)
      obtain s w2 where sw: "sw = (s, w2)" by (cases sw)
      have rep: "\<And>st r e w'. reportPluginData sdk hook tn st ty (r :: 'a jsval) e w' = (Throw t, w')"
        using allfail by (simp add: reportPluginData_def reportPlugin_def Let_def)
      show ?thesis
        using Pair Return x child notChild Some sw rep catchBlock_broken [OF allfail]
        by (cases s)
          (simp_all add: outcome_def promiseProxy_def settlementOf_def promise_then_def
            promise_catch_def Date_now_def Let_def)
    qed
  qed
qed

text \<open>
  C2, as the code has it. No call of the reporter is guarded. For a promise tap the statement
  supposes that reading \<open>isChild()\<close> off the first argument returns (\<open>ic\<close>) and changes
  nothing, and that the callback throws or returns a promise. When the sink's submit never
  throws, the host observes of the proxy what it would observe of the original callback, under
  each convention. When the sink's submit always throws \<open>t\<close>, that error leaves the proxy: a
  synchronous proxy throws \<open>t\<close> whatever the original callback did; the promise of an awaited
  proxy is rejected with \<open>t\<close> once the awaited original settles; outside a child context the
  promise of a promise proxy is rejected with \<open>t\<close> once the original's promise settles.
\<close>

theorem telemetry_error_propagates:
  assumes promise: "tap.type tap = ''promise'' \<longrightarrow>
                     isChildOf arguments w = (Return ic, w) \<and> promiseOrThrow (fn tap this arguments w)"
  shows "((\<forall>d w'. fails sdk d w' = None) \<longrightarrow>
            outcome (tap.type tap) (fn (register sdk hook tap) this arguments w) wr =
            outcome (tap.type tap) (fn tap this arguments w) wr)
         \<and> ((\<forall>d w'. fails sdk d w' = Some t) \<longrightarrow>
              (tap.type tap = ''sync'' \<longrightarrow>
                 fst (fn (register sdk hook tap) this arguments w) = Throw t)
              \<and> (tap.type tap = ''async'' \<longrightarrow>
                 outcome ''async'' (fn (register sdk hook tap) this arguments w) wr =
                   (if outcome ''async'' (fn tap this arguments w) wr = Pending then Pending
                    else Settled (Rejected t)))
              \<and> (tap.type tap = ''promise'' \<and> \<not> truthyV ic \<longrightarrow>
                 outcome ''promise'' (fn (register sdk hook tap) this arguments w) wr =
                   (case outcome ''promise'' (fn tap this arguments w) wr of
                      Settled s \<Rightarrow> Settled (Rejected t)
                    | other \<Rightarrow> other)))"
proof (intro conjI impI)
  assume nofail: "\<forall>d w'. fails sdk d w' = None"
  consider (sync) "tap.type tap = ''sync''" | (async) "tap.type tap = ''async''"
    | (promise) "tap.type tap = ''promise''"
    | (other) "tap.type tap \<noteq> ''sync''" "tap.type tap \<noteq> ''async''" "tap.type tap \<noteq> ''promise''"
    by blast
  then show "outcome (tap.type tap) (fn (register sdk hook tap) this arguments w) wr =
             outcome (tap.type tap) (fn tap this arguments w) wr"
  proof cases
    case sync
    have "fst (fn (register sdk hook tap) this arguments w) = fst (fn tap this arguments w)"
      using sync sync_outcome [OF nofail] by (simp add: register_def)
    then show ?thesis by (simp add: outcome_def)
  next
    case async
    then show ?thesis
      using async_outcome [OF nofail, of hook "name tap" "''async''" "fn tap" this arguments w wr]
      by (simp add: register_def)
  next
    case promise
    then have "isChildOf arguments w = (Return ic, w)"
      and "promiseOrThrow (fn tap this arguments w)"
      using assms by blast+
    then show ?thesis
      using promise promise_outcome [OF nofail, of arguments w ic "fn tap" this hook "name tap" "''promise''" wr]
      by (simp add: register_def)
  next
    case other
    then show ?thesis by (simp add: register_def)
  qed
next
  assume "\<forall>d w'. fails sdk d w' = Some t" and "tap.type tap = ''sync''"
  then show "fst (fn (register sdk hook tap) this arguments w) = Throw t"
    using sync_broken [of sdk t hook "name tap" "''sync''" "fn tap" this arguments w]
    by (simp add: register_def)
next
  assume "\<forall>d w'. fails sdk d w' = Some t" and "tap.type tap = ''async''"
  then show "outcome ''async'' (fn (register sdk hook tap) this arguments w) wr =
               (if outcome ''async'' (fn tap this arguments w) wr = Pending then Pending
                else Settled (Rejected t))"
    using async_broken [of sdk t hook "name tap" "''async''" "fn tap" this arguments w wr]
    by (simp add: register_def)
next
  assume allfail: "\<forall>d w'. fails sdk d w' = Some t"
    and pn: "tap.type tap = ''promise'' \<and> \<not> truthyV ic"
  then have p: "tap.type tap = ''promise''" and notChild: "\<not> truthyV ic"
    by blast+
  have child: "isChildOf arguments w = (Return ic, w)"
    and wellformed: "promiseOrThrow (fn tap this arguments w)"
    using p assms by blast+
  show "outcome ''promise'' (fn (register sdk hook tap) this arguments w) wr =
               (case outcome ''promise'' (fn tap this arguments w) wr of
                  Settled s \<Rightarrow> Settled (Rejected t)
                | other \<Rightarrow> other)"
    using p child notChild wellformed
      promise_broken [OF allfail, of arguments w ic "fn tap" this hook "name tap" "''promise''" wr]
    by (simp add: register_def)
qed

theorem telemetry_error_propagates_witness:
  "tap.type tapResolve = ''promise''
   \<and> isChildOf [topArg] w0 = (Return (Data (Bool False)), w0)
   \<and> promiseOrThrow (fn tapResolve (Data Undefined) [topArg] w0)
   \<and> (\<forall>d w'. fails sdkOk d w' = None)
   \<and> outcome ''promise'' (fn tapResolve (Data Undefined) [topArg] w0) w0 = Settled (Fulfilled (Data (Num 7)))
   \<and> outcome ''promise'' (fn (register sdkOk ''afterCompile'' tapResolve) (Data Undefined) [topArg] w0) w0 =
       Settled (Fulfilled (Data (Num 7)))
   \<and> (\<forall>d w'. fails sdkBroken d w' = Some sinkError)
   \<and> \<not> truthyV (Data (Bool False) :: unit jsval)
   \<and> outcome ''promise'' (fn (register sdkBroken ''afterCompile'' tapResolve) (Data Undefined) [topArg] w0) w0 =
       Settled (Rejected sinkError)
   \<and> tap.type tap42 = ''sync''
   \<and> fst (fn tap42 (Data Undefined) [] w0) = Return (Data (Num 42))
   \<and> fst (fn (register sdkBroken ''compile'' tap42) (Data Undefined) [] w0) = Throw sinkError"
proof -
  have h1: "tap.type tapResolve = ''promise''" by (simp add: tapResolve_def)
  have h2: "isChildOf [topArg] w0 = (Return (Data (Bool False)), w0)"
    by (simp add: isChildOf_def topArg_def)
  have h3: "promiseOrThrow (fn tapResolve (Data Undefined) [topArg] w0)"
    by (simp add: promiseOrThrow_def tapResolve_def)
  have h4: "\<forall>d w'. fails sdkOk d w' = None" by (simp add: sdkOk_def)
  have h5: "outcome ''promise'' (fn tapResolve (Data Undefined) [topArg] w0) w0 =
              Settled (Fulfilled (Data (Num 7)))"
    by (simp add: outcome_def tapResolve_def settlementOf_def)
  have h6: "\<forall>d w'. fails sdkBroken d w' = Some sinkError" by (simp add: sdkBroken_def)
  have h7: "tap.type tap42 = ''sync''" by (simp add: tap42_def)
  have h8: "fst (fn tap42 (Data Undefined) [] w0) = Return (Data (Num 42))"
    by (simp add: tap42_def)
  have pre: "tap.type tapResolve = ''promise'' \<longrightarrow>
               isChildOf [topArg] w0 = (Return (Data (Bool False)), w0)
               \<and> promiseOrThrow (fn tapResolve (Data Undefined) [topArg] w0)"
    using h2 h3 by blast
  have pre': "tap.type tap42 = ''promise'' \<longrightarrow>
               isChildOf [] w0 = (Return (Data Undefined), w0)
               \<and> promiseOrThrow (fn tap42 (Data Undefined) [] w0)"
    by (simp add: tap42_def)
  show ?thesis
    using telemetry_error_propagates [OF pre, of sdkOk "''afterCompile''" w0 sinkError]
      telemetry_error_propagates [OF pre, of sdkBroken "''afterCompile''" w0 sinkError]
      telemetry_error_propagates [OF pre', of sdkBroken "''compile''" w0 sinkError]
      h1 h2 h3 h4 h5 h6 h7 h8
    by simp
qed

text \<open>
  The claim as stated fails: the sink throws, the tap returned 42, and the proxy throws the
  error of the sink.
\<close>

theorem telemetry_error_counterexample:
  "fails sdkBroken [(''compile'', [\<lparr> tapName = ''my-plugin'', costs = 5, startAt = 1000,
        endAt = 1005, type = ''sync'', result = Null, error = [] \<rparr>])] (w0\<lparr>clock := 1005\<rparr>) = Some sinkError
   \<and> fn tap42 (Data Undefined) [] w0 = (Return (Data (Num 42)), w0\<lparr>clock := 1005\<rparr>)
   \<and> fn (register sdkBroken ''compile'' tap42) (Data Undefined) [] w0 = (Throw sinkError, w0\<lparr>clock := 1005\<rparr>)"
  by (simp add: sdkBroken_def tap42_def w0_def register_def syncProxy_def tryReport_def catchBlock_def
      reportPluginData_def reportPlugin_def Date_now_def Let_def)

section \<open>Feature flags of the normalized configuration\<close>

lemma normalized_features:
  assumes ok: "normalizeUserConfig config = Return n"
  shows "features n = featuresOf (orDefault (getProp (orDefault config (Obj [])) ''features'') (Obj []))
                                 (orDefault (getProp (orDefault config (Obj [])) ''mode'') (Str ''normal''))"
proof (cases "orDefault (getProp (orDefault config (Obj [])) ''disableClientServer'') (Bool False)")
  case (Bool dcs)
  show ?thesis
    using ok Bool unfolding normalizeUserConfig_def Let_def
    by (auto split: if_splits)
qed (use ok in \<open>simp_all add: normalizeUserConfig_def Let_def split: if_splits\<close>)

lemma getProp_present:
  "getProp config k \<noteq> Undefined \<Longrightarrow> getProp (orDefault config (Obj [])) k = getProp config k"
  by (cases config) (simp_all add: orDefault_def)

text \<open>
  C10. Whenever \<open>normalizeUserConfig\<close> returns: with \<open>features\<close> an array, each of \<open>loader\<close>,
  \<open>plugins\<close>, \<open>resolver\<close>, \<open>bundle\<close> and \<open>treeShaking\<close> is on exactly when its name is in the
  array; with \<open>features\<close> an object, a member that is not there makes \<open>loader\<close>, \<open>plugins\<close> and
  \<open>bundle\<close> true and \<open>resolver\<close> and \<open>treeShaking\<close> false; and mode \<open>'lite'\<close> makes \<open>lite\<close> true
  in either form.
\<close>

theorem features_normalized:
  assumes ok: "normalizeUserConfig config = Return n"
  shows "(\<forall>xs. getProp config ''features'' = Arr xs \<longrightarrow>
            loader (features n) = (Str ''loader'' \<in> set xs)
            \<and> plugins (features n) = (Str ''plugins'' \<in> set xs)
            \<and> resolver (features n) = (Str ''resolver'' \<in> set xs)
            \<and> bundle (features n) = (Str ''bundle'' \<in> set xs)
            \<and> treeShaking (features n) = (Str ''treeShaking'' \<in> set xs))
         \<and> (\<forall>ps. getProp config ''features'' = Obj ps \<longrightarrow>
              (map_of ps ''loader'' = None \<longrightarrow> loader (features n))
              \<and> (map_of ps ''plugins'' = None \<longrightarrow> plugins (features n))
              \<and> (map_of ps ''bundle'' = None \<longrightarrow> bundle (features n))
              \<and> (map_of ps ''resolver'' = None \<longrightarrow> \<not> resolver (features n))
              \<and> (map_of ps ''treeShaking'' = None \<longrightarrow> \<not> treeShaking (features n)))
         \<and> (getProp config ''mode'' = Str ''lite'' \<longrightarrow> lite (features n))"
proof (intro conjI allI impI)
  fix xs
  assume a: "getProp config ''features'' = Arr xs"
  have f: "features n = featuresOf (Arr xs)
             (orDefault (getProp (orDefault config (Obj [])) ''mode'') (Str ''normal''))"
    using normalized_features [OF ok] getProp_present [of config "''features''"] a
    by (simp add: orDefault_def)
  show "loader (features n) = (Str ''loader'' \<in> set xs)" by (simp add: f featuresOf_def)
  show "plugins (features n) = (Str ''plugins'' \<in> set xs)" by (simp add: f featuresOf_def)
  show "resolver (features n) = (Str ''resolver'' \<in> set xs)" by (simp add: f featuresOf_def)
  show "bundle (features n) = (Str ''bundle'' \<in> set xs)" by (simp add: f featuresOf_def)
  show "treeShaking (features n) = (Str ''treeShaking'' \<in> set xs)" by (simp add: f featuresOf_def)
next
  fix ps
  assume a: "getProp config ''features'' = Obj ps"
  have f: "features n = featuresOf (Obj ps)
             (orDefault (getProp (orDefault config (Obj [])) ''mode'') (Str ''normal''))"
    using normalized_features [OF ok] getProp_present [of config "''features''"] a
    by (simp add: orDefault_def)
  { assume "map_of ps ''loader'' = None"
    then show "loader (features n)" by (simp add: f featuresOf_def defaultBoolean_def) }
  { assume "map_of ps ''plugins'' = None"
    then show "plugins (features n)" by (simp add: f featuresOf_def defaultBoolean_def) }
  { assume "map_of ps ''bundle'' = None"
    then show "bundle (features n)" by (simp add: f featuresOf_def defaultBoolean_def) }
  { assume "map_of ps ''resolver'' = None"
    then show "\<not> resolver (features n)" by (simp add: f featuresOf_def defaultBoolean_def) }
  { assume "map_of ps ''treeShaking'' = None"
    then show "\<not> treeShaking (features n)" by (simp add: f featuresOf_def defaultBoolean_def) }
next
  assume a: "getProp config ''mode'' = Str ''lite''"
  have m: "orDefault (getProp (orDefault config (Obj [])) ''mode'') (Str ''normal'') = Str ''lite''"
    using getProp_present [of config "''mode''"] a by (simp add: orDefault_def)
  show "lite (features n)"
    using normalized_features [OF ok] m
    by (simp add: featuresOf_def split: jsdata.splits)
qed

theorem features_normalized_witness:
  "normalizeUserConfig configArray =
     Return \<lparr> features = \<lparr> loader = True, plugins = False, resolver = True, bundle = False,
                           treeShaking = False, lite = False \<rparr>,
              skipLoaders = Arr [], disableClientServer = False, reportCodeType = Normal,
              reportDir = Str [], compressData = Bool True, mode = Str ''normal'' \<rparr>
   \<and> getProp configArray ''features'' = Arr [Str ''loader'', Str ''resolver'']
   \<and> normalizeUserConfig configObject =
     Return \<lparr> features = \<lparr> loader = True, plugins = False, resolver = False, bundle = True,
                           treeShaking = True, lite = False \<rparr>,
              skipLoaders = Arr [], disableClientServer = False, reportCodeType = Normal,
              reportDir = Str [], compressData = Bool True, mode = Str ''normal'' \<rparr>
   \<and> getProp configObject ''features'' = Obj [(''plugins'', Bool False), (''treeShaking'', Bool True)]
   \<and> map_of [(''plugins'', Bool False), (''treeShaking'', Bool True)] ''loader'' = None
   \<and> map_of [(''plugins'', Bool False), (''treeShaking'', Bool True)] ''resolver'' = None
   \<and> getProp configLite ''mode'' = Str ''lite''
   \<and> normalizeUserConfig configLite =
     Return \<lparr> features = \<lparr> loader = True, plugins = True, resolver = False, bundle = True,
                           treeShaking = False, lite = True \<rparr>,
              skipLoaders = Arr [], disableClientServer = False, reportCodeType = NoSource,
              reportDir = Str [], compressData = Bool True, mode = Str ''lite'' \<rparr>"
proof -
  let ?nA = "\<lparr> features = \<lparr> loader = True, plugins = False, resolver = True, bundle = False,
                           treeShaking = False, lite = False \<rparr>,
              skipLoaders = Arr [], disableClientServer = False, reportCodeType = Normal,
              reportDir = Str [], compressData = Bool True, mode = Str ''normal'' \<rparr>"
  let ?nO = "\<lparr> features = \<lparr> loader = True, plugins = False, resolver = False, bundle = True,
                           treeShaking = True, lite = False \<rparr>,
              skipLoaders = Arr [], disableClientServer = False, reportCodeType = Normal,
              reportDir = Str [], compressData = Bool True, mode = Str ''normal'' \<rparr>"
  let ?nL = "\<lparr> features = \<lparr> loader = True, plugins = True, resolver = False, bundle = True,
                           treeShaking = False, lite = True \<rparr>,
              skipLoaders = Arr [], disableClientServer = False, reportCodeType = NoSource,
              reportDir = Str [], compressData = Bool True, mode = Str ''lite'' \<rparr>"
  have a: "normalizeUserConfig configArray = Return ?nA"
    by (simp add: normalizeUserConfig_def configArray_def orDefault_def featuresOf_def
        defaultOutput_def defaultReportCodeType_def normalizeReportType_def)
  have b: "normalizeUserConfig configObject = Return ?nO"
    by (simp add: normalizeUserConfig_def configObject_def orDefault_def featuresOf_def
        defaultBoolean_def defaultOutput_def defaultReportCodeType_def normalizeReportType_def)
  have c: "normalizeUserConfig configLite = Return ?nL"
    by (simp add: normalizeUserConfig_def configLite_def orDefault_def featuresOf_def
        defaultBoolean_def defaultOutput_def defaultReportCodeType_def normalizeReportType_def)
  show ?thesis
    using a b c features_normalized [OF a] features_normalized [OF b] features_normalized [OF c]
    by (simp add: configArray_def configObject_def configLite_def)
qed

end
